theory Spec2Isabelle
  imports Main
begin

section \<open>Error taxonomy (events/domain/errors.py)\<close>

text \<open>
  \<^verbatim>\<open>class ErrorCode(Enum)\<close>: a closed enumeration of three codes, each with its string
  value.
\<close>

datatype ErrorCode = EVENT_NOT_FOUND | SESSION_NOT_FOUND | INVALID_EVENT_ID

fun ErrorCode_value :: "ErrorCode \<Rightarrow> string" where
  "ErrorCode_value EVENT_NOT_FOUND = ''EVENT_NOT_FOUND''"
| "ErrorCode_value SESSION_NOT_FOUND = ''SESSION_NOT_FOUND''"
| "ErrorCode_value INVALID_EVENT_ID = ''INVALID_EVENT_ID''"

text \<open>
  The four exception classes of the module. An instance is a Python object: its class,
  the \<^verbatim>\<open>args\<close> tuple that \<^verbatim>\<open>BaseException.__new__\<close> stores from the constructor's
  positional arguments, and its attribute dictionary.
\<close>

datatype py_class =
  DomainError_cls | EventNotFoundError_cls | SessionNotFoundError_cls | InvalidEventIdError_cls

datatype attr_value = CodeVal ErrorCode | StrVal string

record py_object =
  cls :: py_class
  args :: "string list"
  attrs :: "string \<rightharpoonup> attr_value"

text \<open>
  Everything the modelled code can raise. \<open>Raised\<close> carries a domain error instance;
  \<open>FrozenInstanceError\<close> carries the attribute name of its message
  (\<^verbatim>\<open>cannot assign to field 'name'\<close>); \<open>ValueError\<close> carries its message.
  \<open>ValueError_invalid_literal lit\<close> is the \<^verbatim>\<open>ValueError\<close> that \<^verbatim>\<open>int(lit, 16)\<close> raises: its
  message is \<^verbatim>\<open>invalid literal for int() with base 16: \<close> followed by the \<^verbatim>\<open>repr\<close> of the
  literal, which is kept here as the literal itself.
\<close>

datatype error =
  NotImplementedError
| ValueError string
| ValueError_invalid_literal string
| FrozenInstanceError string
| AttributeError string
| InvalidOperation
| MemoryError
| Raised py_object

definition new_instance :: "py_class \<Rightarrow> string list \<Rightarrow> py_object" where
  "new_instance c as = \<lparr>cls = c, args = as, attrs = Map.empty\<rparr>"

text \<open>
  \<^verbatim>\<open>object.__setattr__\<close>: exception instances have a \<^verbatim>\<open>__dict__\<close>, so the store always
  succeeds.
\<close>

definition object_setattr :: "py_object \<Rightarrow> string \<Rightarrow> attr_value \<Rightarrow> py_object" where
  "object_setattr self name v = self\<lparr>attrs := (attrs self)(name \<mapsto> v)\<rparr>"

text \<open>
  \<^verbatim>\<open>@dataclass(frozen=True) class DomainError(Exception)\<close> with fields \<^verbatim>\<open>code\<close> and
  \<^verbatim>\<open>message\<close>. The decorator installs on \<^verbatim>\<open>DomainError\<close> the method
  \<^verbatim>\<open>
  def __setattr__(self, name, value):
      if type(self) is cls or name in ('code', 'message',):
          raise FrozenInstanceError(f"cannot assign to field {name!r}")
      super(cls, self).__setattr__(name, value)
  \<close>
  where \<^verbatim>\<open>cls\<close> is \<^verbatim>\<open>DomainError\<close> itself (dataclasses.py, \<^verbatim>\<open>_frozen_get_del_attr\<close>). The
  three subclasses are not decorated, so they inherit this method unchanged.
\<close>

definition DomainError_fields :: "string list" where
  "DomainError_fields = [''code'', ''message'']"

definition DomainError_setattr :: "py_object \<Rightarrow> string \<Rightarrow> attr_value \<Rightarrow> error + py_object" where
  "DomainError_setattr self name v =
     (if cls self = DomainError_cls \<or> name \<in> set DomainError_fields
      then Inl (FrozenInstanceError name)
      else Inr (object_setattr self name v))"

text \<open>
  The generated \<^verbatim>\<open>__init__(self, code, message)\<close> of a frozen dataclass stores both fields
  with \<^verbatim>\<open>object.__setattr__\<close>, bypassing the guard above.
\<close>

definition DomainError_init :: "py_object \<Rightarrow> ErrorCode \<Rightarrow> string \<Rightarrow> py_object" where
  "DomainError_init self code message =
     object_setattr (object_setattr self ''code'' (CodeVal code)) ''message'' (StrVal message)"

text \<open>\<^verbatim>\<open>__str__\<close>: \<^verbatim>\<open>f"{self.code.value}: {self.message}"\<close>.\<close>

definition DomainError_str :: "py_object \<Rightarrow> error + string" where
  "DomainError_str self =
     (case attrs self ''code'' of
        Some (CodeVal c) \<Rightarrow>
          (case attrs self ''message'' of
             Some (StrVal m) \<Rightarrow> Inr (ErrorCode_value c @ '': '' @ m)
           | _ \<Rightarrow> Inl (AttributeError ''message''))
      | _ \<Rightarrow> Inl (AttributeError ''code''))"

text \<open>
  \<^verbatim>\<open>EventNotFoundError.__init__(self, event_id)\<close>: the base initialiser, then the plain
  assignment \<^verbatim>\<open>self.event_id = event_id\<close>, which goes through the inherited
  \<^verbatim>\<open>__setattr__\<close>.
\<close>

definition EventNotFoundError_init :: "py_object \<Rightarrow> string \<Rightarrow> error + py_object" where
  "EventNotFoundError_init self event_id =
     DomainError_setattr (DomainError_init self EVENT_NOT_FOUND ''Event not found'')
       ''event_id'' (StrVal event_id)"



text \<open>The constructor calls: allocate the instance, then run \<^verbatim>\<open>__init__\<close>.\<close>

definition EventNotFoundError :: "string \<Rightarrow> error + py_object" where
  "EventNotFoundError event_id =
     EventNotFoundError_init (new_instance EventNotFoundError_cls [event_id]) event_id"



text \<open>Reading the two declared fields of a constructed error.\<close>

definition code_of :: "py_object \<Rightarrow> ErrorCode option" where
  "code_of self = (case attrs self ''code'' of Some (CodeVal c) \<Rightarrow> Some c | _ \<Rightarrow> None)"

definition message_of :: "py_object \<Rightarrow> string option" where
  "message_of self = (case attrs self ''message'' of Some (StrVal m) \<Rightarrow> Some m | _ \<Rightarrow> None)"


section \<open>Strings\<close>

text \<open>
  A Python \<^verbatim>\<open>str\<close> is modelled as a \<open>string\<close>: a sequence of characters with code points
  below 256, \<open>ord\<close> giving the code point.
\<close>

definition ord :: "char \<Rightarrow> nat" where
  "ord c = of_char c"

text \<open>
  \<^verbatim>\<open>s.replace(old, new)\<close>: the non-overlapping occurrences of \<open>old\<close> are replaced from left
  to right; an empty \<open>old\<close> matches before every character and at the end.
\<close>

function (sequential) str_replace :: "string \<Rightarrow> string \<Rightarrow> string \<Rightarrow> string" where
  "str_replace [] new s = new @ concat (map (\<lambda>c. c # new) s)"
| "str_replace old new [] = []"
| "str_replace old new (c # cs) =
     (if take (length old) (c # cs) = old
      then new @ str_replace old new (drop (length old) (c # cs))
      else c # str_replace old new cs)"
  by pat_completeness auto
termination
  by (relation "measure (\<lambda>(old, new, s). length s)") auto

text \<open>\<^verbatim>\<open>s.strip(chars)\<close>: leading and trailing characters that occur in \<open>chars\<close> are removed.\<close>

definition str_strip :: "string \<Rightarrow> string \<Rightarrow> string" where
  "str_strip chars s =
     rev (dropWhile (\<lambda>c. c \<in> set chars) (rev (dropWhile (\<lambda>c. c \<in> set chars) s)))"


section \<open>Integer literals in base 16 (\<^verbatim>\<open>int(hex, 16)\<close>)\<close>

text \<open>
  \<^verbatim>\<open>uuid.UUID\<close> converts its argument with \<^verbatim>\<open>int(hex, 16)\<close>. CPython first maps the string
  to ASCII (\<^verbatim>\<open>_PyUnicode_TransformDecimalAndSpaceToASCII\<close>) and then parses it with
  \<^verbatim>\<open>PyLong_FromString\<close>; both are modelled here for base 16.

  \<open>PyLong_DigitValue\<close> is the table \<^verbatim>\<open>_PyLong_DigitValue\<close>: the value of a digit or letter,
  37 for every other character.
\<close>

definition PyLong_DigitValue :: "char \<Rightarrow> nat" where
  "PyLong_DigitValue c =
     (if 48 \<le> ord c \<and> ord c \<le> 57 then ord c - 48
      else if 97 \<le> ord c \<and> ord c \<le> 122 then ord c - 87
      else if 65 \<le> ord c \<and> ord c \<le> 90 then ord c - 55
      else 37)"

text \<open>\<^verbatim>\<open>Py_ISSPACE\<close>: space, and the controls tab to carriage return.\<close>

definition Py_ISSPACE :: "char \<Rightarrow> bool" where
  "Py_ISSPACE c = (ord c = 32 \<or> (9 \<le> ord c \<and> ord c \<le> 13))"

text \<open>
  \<^verbatim>\<open>Py_UNICODE_ISSPACE\<close> below code point 256: the ASCII white space (which includes the
  separators 28 to 31), NEL (133) and the no-break space (160).
\<close>

definition Py_UNICODE_ISSPACE :: "char \<Rightarrow> bool" where
  "Py_UNICODE_ISSPACE c =
     (ord c = 32 \<or> (9 \<le> ord c \<and> ord c \<le> 13) \<or> (28 \<le> ord c \<and> ord c \<le> 31) \<or>
      ord c = 133 \<or> ord c = 160)"

text \<open>
  The transformation returns an ASCII string unchanged. Otherwise it copies code points
  below 127, turns white space into a space, and on any other character (no character
  from 127 to 255 is a decimal digit) writes \<^verbatim>\<open>?\<close> and stops.
\<close>

fun transform_loop :: "string \<Rightarrow> string" where
  "transform_loop [] = []"
| "transform_loop (ch # rest) =
     (if ord ch < 127 then ch # transform_loop rest
      else if Py_UNICODE_ISSPACE ch then CHR '' '' # transform_loop rest
      else ''?'')"

definition TransformDecimalAndSpaceToASCII :: "string \<Rightarrow> string" where
  "TransformDecimalAndSpaceToASCII u =
     (if list_all (\<lambda>ch. ord ch < 128) u then u else transform_loop u)"

text \<open>
  \<^verbatim>\<open>long_from_binary_base\<close>: scan digits and underscores, remembering the previous character
  \<open>prev\<close>; two underscores in a row are an error. The accumulator \<open>z\<close> is the value of the
  digits read so far (the C code computes it in a second pass over the same characters).
  The result is the last character read, the value, and the unread rest.
\<close>

fun long_from_binary_base :: "char \<Rightarrow> int \<Rightarrow> string \<Rightarrow> (char \<times> int \<times> string) option" where
  "long_from_binary_base prev z [] = Some (prev, z, [])"
| "long_from_binary_base prev z (p # ps) =
     (if PyLong_DigitValue p < 16 \<or> p = CHR ''_'' then
        (if p = CHR ''_'' then
           (if prev = CHR ''_'' then None else long_from_binary_base p z ps)
         else long_from_binary_base p (16 * z + int (PyLong_DigitValue p)) ps)
      else Some (prev, z, p # ps))"

text \<open>
  \<^verbatim>\<open>PyLong_FromString(str, &end, 16)\<close> together with the caller's test that the whole buffer
  was read: skip leading white space; an optional sign; an optional \<^verbatim>\<open>0x\<close> or \<^verbatim>\<open>0X\<close>,
  after which one underscore is allowed; no leading underscore; the digits; no trailing
  underscore; at least one character read; trailing white space; nothing else.
\<close>

definition PyLong_FromString :: "string \<Rightarrow> int option" where
  "PyLong_FromString str0 =
     (let str1 = dropWhile Py_ISSPACE str0;
          sign = (if take 1 str1 = ''-'' then - 1 else 1 :: int);
          str2 = (if take 1 str1 = ''+'' \<or> take 1 str1 = ''-'' then drop 1 str1 else str1);
          str3 = (if take 2 str2 = ''0x'' \<or> take 2 str2 = ''0X''
                  then (if take 1 (drop 2 str2) = ''_'' then drop 3 str2 else drop 2 str2)
                  else str2)
      in if take 1 str3 = ''_'' then None
         else
           (case long_from_binary_base (CHR 0x00) 0 str3 of
              None \<Rightarrow> None
            | Some (prev, z, str4) \<Rightarrow>
                if prev = CHR ''_'' then None
                else if length str4 = length str3 then None
                else if dropWhile Py_ISSPACE str4 \<noteq> [] then None
                else Some (sign * z)))"

definition int_base16 :: "string \<Rightarrow> error + int" where
  "int_base16 s =
     (case PyLong_FromString (TransformDecimalAndSpaceToASCII s) of
        None \<Rightarrow> Inl (ValueError_invalid_literal s)
      | Some n \<Rightarrow> Inr n)"


section \<open>Identifiers (events/domain/value_objects.py)\<close>

text \<open>
  \<^verbatim>\<open>uuid.UUID(hex)\<close>: a UUID object holds the integer \<^verbatim>\<open>int\<close>, and two UUIDs are equal when
  their integers are. The constructor, called with a string:
  \<^verbatim>\<open>
  hex = hex.replace('urn:', '').replace('uuid:', '')
  hex = hex.strip('{}').replace('-', '')
  if len(hex) != 32:
      raise ValueError('badly formed hexadecimal UUID string')
  int = int_(hex, 16)
  if not 0 <= int < 1<<128:
      raise ValueError('int is out of range (need a 128-bit value)')
  \<close>
\<close>

datatype UUID = UUID (int_of: int)

definition uuid_normalise :: "string \<Rightarrow> string" where
  "uuid_normalise hex =
     str_replace ''-'' [] (str_strip ''{}'' (str_replace ''uuid:'' [] (str_replace ''urn:'' [] hex)))"

definition UUID_init :: "string \<Rightarrow> error + UUID" where
  "UUID_init hex0 =
     (let hex = uuid_normalise hex0
      in if length hex \<noteq> 32 then Inl (ValueError ''badly formed hexadecimal UUID string'')
         else
           (case int_base16 hex of
              Inl e \<Rightarrow> Inl e
            | Inr n \<Rightarrow>
                if \<not> (0 \<le> n \<and> n < 2 ^ 128)
                then Inl (ValueError ''int is out of range (need a 128-bit value)'')
                else Inr (UUID n)))"

text \<open>
  The three identifier classes are frozen dataclasses with the single field \<^verbatim>\<open>value\<close>;
  \<^verbatim>\<open>from_string\<close> is \<^verbatim>\<open>cls(value=UUID(value))\<close>, so an error of \<^verbatim>\<open>UUID\<close> propagates.
\<close>

datatype EventId = EventId (EventId_value: UUID)

datatype SessionId = SessionId (SessionId_value: UUID)

datatype TicketTypeId = TicketTypeId (TicketTypeId_value: UUID)

definition EventId_from_string :: "string \<Rightarrow> error + EventId" where
  "EventId_from_string v = (case UUID_init v of Inl e \<Rightarrow> Inl e | Inr u \<Rightarrow> Inr (EventId u))"

definition SessionId_from_string :: "string \<Rightarrow> error + SessionId" where
  "SessionId_from_string v = (case UUID_init v of Inl e \<Rightarrow> Inl e | Inr u \<Rightarrow> Inr (SessionId u))"

definition TicketTypeId_from_string :: "string \<Rightarrow> error + TicketTypeId" where
  "TicketTypeId_from_string v =
     (case UUID_init v of Inl e \<Rightarrow> Inl e | Inr u \<Rightarrow> Inr (TicketTypeId u))"


section \<open>Money and Capacity (events/domain/value_objects.py)\<close>

text \<open>
  A \<^verbatim>\<open>decimal.Decimal\<close> is a sign, a coefficient and an exponent (the value is
  \<open>\<plusminus> coefficient \<times> 10\<^sup>e\<close>), or one of the special values: an infinity, a quiet NaN or a
  signalling NaN, each with a sign. Payloads of NaNs are left out.
\<close>

datatype Decimal =
  Finite (sign: bool) (coefficient: nat) (exponent: int)
| Infinity bool
| NaN bool
| sNaN bool

text \<open>
  The comparisons \<^verbatim>\<open>amount < 0\<close> and \<^verbatim>\<open>amount >= 0\<close> as Python evaluates them under the
  default context: an ordering comparison with a NaN raises \<^verbatim>\<open>InvalidOperation\<close>; a
  negative zero is not below zero.
\<close>

fun dec_lt_zero :: "Decimal \<Rightarrow> error + bool" where
  "dec_lt_zero (Finite s c e) = Inr (s \<and> c \<noteq> 0)"
| "dec_lt_zero (Infinity s) = Inr s"
| "dec_lt_zero (NaN s) = Inl InvalidOperation"
| "dec_lt_zero (sNaN s) = Inl InvalidOperation"

fun dec_ge_zero :: "Decimal \<Rightarrow> error + bool" where
  "dec_ge_zero (Finite s c e) = Inr (\<not> (s \<and> c \<noteq> 0))"
| "dec_ge_zero (Infinity s) = Inr (\<not> s)"
| "dec_ge_zero (NaN s) = Inl InvalidOperation"
| "dec_ge_zero (sNaN s) = Inl InvalidOperation"

text \<open>Decimal digits of a natural number, as \<^verbatim>\<open>str\<close> prints them.\<close>

definition digit_char :: "nat \<Rightarrow> char" where
  "digit_char n = ''0123456789'' ! (n mod 10)"

function str_nat :: "nat \<Rightarrow> string" where
  "str_nat n = (if n < 10 then [digit_char n] else str_nat (n div 10) @ [digit_char (n mod 10)])"
  by pat_completeness auto
termination
  by (relation "measure id") auto

declare str_nat.simps [simp del]

text \<open>
  \<^verbatim>\<open>format(amount, '.2f')\<close>, as CPython's \<^verbatim>\<open>_decimal\<close> module computes it on a 64-bit
  build. A finite value is rescaled to the exponent \<open>-2\<close> and printed as sign, integer part,
  point and two digits; \<open>rescale2 c e\<close> is the rescaled coefficient, rounded half to even
  (the default context's rounding) when digits are dropped; it is zero for a zero
  coefficient and when more digits are dropped than the coefficient has. When the exponent is \<open>-2\<close> or
  more and the coefficient is not zero, the coefficient is shifted left by \<open>e + 2\<close> digits:
  if the shifted coefficient would have more than \<open>MPD_MAX_PREC + 1\<close> digits the call raises
  \<^verbatim>\<open>ValueError\<close>, and if memory for its digits cannot be obtained it raises \<^verbatim>\<open>MemoryError\<close>.
  What the allocator can deliver depends on the machine: \<open>alloc n\<close> says whether memory
  for \<open>n\<close> digits is available. A special value is printed by name, whatever the format.
\<close>

definition round_half_even :: "nat \<Rightarrow> nat \<Rightarrow> nat" where
  "round_half_even c p =
     (let q = c div p; r = c mod p
      in if p < 2 * r \<or> (2 * r = p \<and> odd q) then q + 1 else q)"

definition num_digits :: "nat \<Rightarrow> nat" where
  "num_digits c = length (str_nat c)"

definition rescale2 :: "nat \<Rightarrow> int \<Rightarrow> nat" where
  "rescale2 c e =
     (if c = 0 then 0
      else if - 2 \<le> e then c * 10 ^ nat (e + 2)
      else if int (num_digits c) < - 2 - e then 0
      else round_half_even c (10 ^ nat (- 2 - e)))"

definition format_sign :: "bool \<Rightarrow> string" where
  "format_sign s = (if s then ''-'' else [])"

definition MPD_MAX_PREC :: nat where
  "MPD_MAX_PREC = 999999999999999999"

fun format_2f :: "(nat \<Rightarrow> bool) \<Rightarrow> Decimal \<Rightarrow> error + string" where
  "format_2f alloc (Finite s c e) =
     (if c \<noteq> 0 \<and> - 2 \<le> e \<and> int MPD_MAX_PREC + 1 < int (num_digits c) + (e + 2)
      then Inl (ValueError ''format specification exceeds internal limits of _decimal'')
      else if c \<noteq> 0 \<and> - 2 \<le> e \<and> \<not> alloc (num_digits c + nat (e + 2))
      then Inl MemoryError
      else
        (let q = rescale2 c e
         in Inr (format_sign s @ str_nat (q div 100) @ ''.'' @
                 [digit_char (q mod 100 div 10), digit_char (q mod 10)])))"
| "format_2f alloc (Infinity s) = Inr (format_sign s @ ''Infinity'')"
| "format_2f alloc (NaN s) = Inr (format_sign s @ ''NaN'')"
| "format_2f alloc (sNaN s) = Inr (format_sign s @ ''sNaN'')"

text \<open>
  \<^verbatim>\<open>@dataclass(frozen=True) class Money\<close>: the generated \<^verbatim>\<open>__init__\<close> stores the field and
  calls \<^verbatim>\<open>__post_init__\<close>, which raises for a negative amount.
\<close>

record Money =
  amount :: Decimal

definition Money_post_init :: "Money \<Rightarrow> error + unit" where
  "Money_post_init self =
     (case dec_lt_zero (amount self) of
        Inl e \<Rightarrow> Inl e
      | Inr neg \<Rightarrow>
          if neg then Inl (ValueError ''Money amount cannot be negative'') else Inr ())"

definition Money_init :: "Decimal \<Rightarrow> error + Money" where
  "Money_init a =
     (let self = \<lparr>amount = a\<rparr>
      in case Money_post_init self of Inl e \<Rightarrow> Inl e | Inr u \<Rightarrow> Inr self)"

definition Money_str :: "(nat \<Rightarrow> bool) \<Rightarrow> Money \<Rightarrow> error + string" where
  "Money_str alloc self = format_2f alloc (amount self)"

record Capacity =
  capacity_value :: int

definition Capacity_post_init :: "Capacity \<Rightarrow> error + unit" where
  "Capacity_post_init self =
     (if capacity_value self < 0 then Inl (ValueError ''Capacity cannot be negative'')
      else Inr ())"

definition Capacity_init :: "int \<Rightarrow> error + Capacity" where
  "Capacity_init v =
     (let self = \<lparr>capacity_value = v\<rparr>
      in case Capacity_post_init self of Inl e \<Rightarrow> Inl e | Inr u \<Rightarrow> Inr self)"


section \<open>Entities, store and service\<close>

text \<open>
  The frozen dataclasses of events/domain/models.py. A \<^verbatim>\<open>datetime\<close> is a point on a
  linear time scale.
\<close>

type_synonym datetime = int

record Event =
  Event_id :: EventId
  Event_name :: string
  Event_description :: string
  Event_location :: string
  Event_image_url :: "string option"
  Event_created_at :: datetime
  Event_updated_at :: datetime

record TicketType =
  TicketType_id :: TicketTypeId
  TicketType_session_id :: SessionId
  TicketType_name :: string
  TicketType_price :: Money
  TicketType_quantity :: Capacity
  TicketType_created_at :: datetime

record Session =
  Session_id :: SessionId
  Session_event_id :: EventId
  Session_starts_at :: datetime
  Session_ends_at :: datetime
  Session_total_capacity :: Capacity
  Session_created_at :: datetime
  Session_ticket_types :: "TicketType list"

text \<open>
  \<^verbatim>\<open>class EventStore(ABC)\<close> (events/stores/interfaces.py): an implementation supplies the
  four operations. \<^verbatim>\<open>DjangoEventStore\<close> (events/stores/django_store.py) is the one
  implementation in the repository; each of its methods is \<^verbatim>\<open>raise NotImplementedError\<close>.
\<close>

record EventStore =
  store_list_events :: "error + Event list"
  store_get_event :: "EventId \<Rightarrow> error + Event option"
  store_get_sessions_for_event :: "EventId \<Rightarrow> error + Session list"
  store_event_exists :: "EventId \<Rightarrow> error + bool"

definition DjangoEventStore :: EventStore where
  "DjangoEventStore =
     \<lparr>store_list_events = Inl NotImplementedError,
      store_get_event = (\<lambda>event_id. Inl NotImplementedError),
      store_get_sessions_for_event = (\<lambda>event_id. Inl NotImplementedError),
      store_event_exists = (\<lambda>event_id. Inl NotImplementedError)\<rparr>"

text \<open>
  \<^verbatim>\<open>class EventService\<close> (events/services/event_service.py). The constructor keeps the
  store; the body of each of the three methods is the single statement
  \<^verbatim>\<open>raise NotImplementedError\<close>.
\<close>

record EventService =
  service_store :: EventStore

definition EventService_init :: "EventStore \<Rightarrow> EventService" where
  "EventService_init store = \<lparr>service_store = store\<rparr>"

definition EventService_list_events :: "EventService \<Rightarrow> error + Event list" where
  "EventService_list_events self = Inl NotImplementedError"

definition EventService_get_event :: "EventService \<Rightarrow> string \<Rightarrow> error + Event" where
  "EventService_get_event self event_id = Inl NotImplementedError"

definition EventService_get_sessions_for_event ::
  "EventService \<Rightarrow> string \<Rightarrow> error + Session list" where
  "EventService_get_sessions_for_event self event_id = Inl NotImplementedError"


section \<open>Cache invalidation signals (events/signals.py)\<close>

text \<open>
  The persistence model of an event (events/models.py) and the signals on which the
  handlers are registered. The cache is a store from string keys to values; a handler
  receives it and returns it as it leaves it. The body of
  \<^verbatim>\<open>invalidate_event_cache(sender, instance, **kwargs)\<close> is \<^verbatim>\<open>pass\<close>, and so are the
  bodies of the handlers for sessions and ticket types.
\<close>

datatype signal = post_save | post_delete

datatype model_class = Event_model | Session_model | TicketType_model

record EventRow =
  row_id :: UUID
  row_name :: string
  row_description :: string
  row_location :: string
  row_image_url :: "string option"
  row_created_at :: datetime
  row_updated_at :: datetime

type_synonym 'v cache = "string \<rightharpoonup> 'v"

definition invalidate_event_cache ::
  "model_class \<Rightarrow> EventRow \<Rightarrow> signal \<Rightarrow> 'v cache \<Rightarrow> 'v cache" where
  "invalidate_event_cache sender inst kwargs cache = cache"


section \<open>Notions of the specification\<close>

text \<open>
  Hexadecimal digits and the number a string of them denotes, most significant digit
  first.
\<close>

definition is_hex_digit :: "char \<Rightarrow> bool" where
  "is_hex_digit c = (c \<in> set ''0123456789abcdefABCDEF'')"

definition is_lower_hex_digit :: "char \<Rightarrow> bool" where
  "is_lower_hex_digit c = (c \<in> set ''0123456789abcdef'')"

definition hex_digit_value :: "char \<Rightarrow> nat" where
  "hex_digit_value c =
     (if c \<in> set ''0123456789'' then ord c - ord (CHR ''0'')
      else if c \<in> set ''abcdef'' then 10 + (ord c - ord (CHR ''a''))
      else 10 + (ord c - ord (CHR ''A'')))"

definition hex_value :: "string \<Rightarrow> int" where
  "hex_value s = foldl (\<lambda>z c. 16 * z + int (hex_digit_value c)) 0 s"

text \<open>The upper-case spelling of a hexadecimal digit.\<close>

definition hex_upper :: "char \<Rightarrow> char" where
  "hex_upper c =
     (if c = CHR ''a'' then CHR ''A'' else if c = CHR ''b'' then CHR ''B''
      else if c = CHR ''c'' then CHR ''C'' else if c = CHR ''d'' then CHR ''D''
      else if c = CHR ''e'' then CHR ''E'' else if c = CHR ''f'' then CHR ''F'' else c)"

text \<open>
  The hyphenated form: groups of 8, 4, 4, 4 and 12 digits satisfying \<open>P\<close>, separated by
  hyphens. The canonical form of the specification is the hyphenated form in lower case.
\<close>

definition hyphenated :: "(char \<Rightarrow> bool) \<Rightarrow> string \<Rightarrow> bool" where
  "hyphenated P s =
     (length s = 36 \<and>
      list_all P (take 8 s) \<and> s ! 8 = CHR ''-'' \<and>
      list_all P (take 4 (drop 9 s)) \<and> s ! 13 = CHR ''-'' \<and>
      list_all P (take 4 (drop 14 s)) \<and> s ! 18 = CHR ''-'' \<and>
      list_all P (take 4 (drop 19 s)) \<and> s ! 23 = CHR ''-'' \<and>
      list_all P (drop 24 s))"

definition canonical_uuid_string :: "string \<Rightarrow> bool" where
  "canonical_uuid_string s = hyphenated is_lower_hex_digit s"

text \<open>
  A valid UUID string, read generously: 32 hexadecimal digits in either case, hyphenated
  or not, optionally wrapped in one pair of braces or prefixed with \<^verbatim>\<open>urn:uuid:\<close>. The
  UUID it denotes is the number its digits spell.
\<close>

definition uuid_body :: "string \<Rightarrow> string" where
  "uuid_body s =
     (if take 9 s = ''urn:uuid:'' then drop 9 s
      else if take 1 s = ''{'' \<and> last s = CHR ''}'' then butlast (drop 1 s)
      else s)"

definition valid_hex_body :: "string \<Rightarrow> bool" where
  "valid_hex_body b = (hyphenated is_hex_digit b \<or> (length b = 32 \<and> list_all is_hex_digit b))"

definition valid_uuid_string :: "string \<Rightarrow> bool" where
  "valid_uuid_string s = valid_hex_body (uuid_body s)"

definition uuid_denoted :: "string \<Rightarrow> UUID" where
  "uuid_denoted s = UUID (hex_value (filter (\<lambda>c. c \<noteq> CHR ''-'') (uuid_body s)))"

text \<open>
  A string of hexadecimal digits and hyphens that begins and ends with a digit and has
  32 digits in all: what every valid form reduces to.
\<close>

definition hex_body :: "string \<Rightarrow> bool" where
  "hex_body b =
     (list_all (\<lambda>c. is_hex_digit c \<or> c = CHR ''-'') b \<and> b \<noteq> [] \<and> is_hex_digit (hd b) \<and>
      is_hex_digit (last b) \<and> length (filter (\<lambda>c. c \<noteq> CHR ''-'') b) = 32)"

text \<open>
  A rendering with exactly two fractional digits: after its first point come two
  characters, both decimal digits, and nothing else.
\<close>

definition is_digit :: "char \<Rightarrow> bool" where
  "is_digit c = (c \<in> set ''0123456789'')"

definition two_fractional_digits :: "string \<Rightarrow> bool" where
  "two_fractional_digits s =
     (case dropWhile (\<lambda>c. c \<noteq> CHR ''.'') s of
        [p, d1, d2] \<Rightarrow> is_digit d1 \<and> is_digit d2
      | _ \<Rightarrow> False)"


section \<open>Properties of the error taxonomy\<close>

lemma EventNotFoundError_value:
  "EventNotFoundError event_id =
     Inr \<lparr>cls = EventNotFoundError_cls, args = [event_id],
          attrs = [''code'' \<mapsto> CodeVal EVENT_NOT_FOUND,
                   ''message'' \<mapsto> StrVal ''Event not found'',
                   ''event_id'' \<mapsto> StrVal event_id]\<rparr>"
  by (simp add: EventNotFoundError_def EventNotFoundError_init_def DomainError_setattr_def
      DomainError_init_def object_setattr_def new_instance_def DomainError_fields_def)



text \<open>
  Claim C8. For every pair of event id strings, the two \<^verbatim>\<open>EVENT_NOT_FOUND\<close> errors built
  from them carry the same message, the constant text \<^verbatim>\<open>Event not found\<close>; their
  \<^verbatim>\<open>__str__\<close> renderings coincide as well, so neither embeds the event id.
\<close>

theorem EventNotFoundError_message_constant:
  "\<exists>e1 e2.
     EventNotFoundError id1 = Inr e1 \<and> EventNotFoundError id2 = Inr e2 \<and>
     code_of e1 = Some EVENT_NOT_FOUND \<and> code_of e2 = Some EVENT_NOT_FOUND \<and>
     message_of e1 = Some ''Event not found'' \<and> message_of e2 = message_of e1 \<and>
     DomainError_str e1 = Inr ''EVENT_NOT_FOUND: Event not found'' \<and>
     DomainError_str e2 = DomainError_str e1"
  by (simp add: EventNotFoundError_value code_of_def message_of_def DomainError_str_def)




section \<open>Properties of the string operations and of the integer parser\<close>

lemma is_hex_digit_cases:
  assumes "is_hex_digit c"
  shows "PyLong_DigitValue c = hex_digit_value c \<and> hex_digit_value c < 16 \<and> ord c < 127 \<and>
     \<not> Py_ISSPACE c \<and> c \<noteq> CHR ''_'' \<and> c \<noteq> CHR ''-'' \<and> c \<noteq> CHR ''+'' \<and>
     c \<noteq> CHR ''x'' \<and> c \<noteq> CHR ''X'' \<and> c \<noteq> CHR ''u'' \<and> c \<noteq> CHR ''{'' \<and> c \<noteq> CHR ''}''"
proof -
  from assms have "c = CHR ''0'' \<or> c = CHR ''1'' \<or> c = CHR ''2'' \<or> c = CHR ''3'' \<or>
    c = CHR ''4'' \<or> c = CHR ''5'' \<or> c = CHR ''6'' \<or> c = CHR ''7'' \<or> c = CHR ''8'' \<or>
    c = CHR ''9'' \<or> c = CHR ''a'' \<or> c = CHR ''b'' \<or> c = CHR ''c'' \<or> c = CHR ''d'' \<or>
    c = CHR ''e'' \<or> c = CHR ''f'' \<or> c = CHR ''A'' \<or> c = CHR ''B'' \<or> c = CHR ''C'' \<or>
    c = CHR ''D'' \<or> c = CHR ''E'' \<or> c = CHR ''F''"
    by (simp add: is_hex_digit_def)
  then show ?thesis
    by (elim disjE; simp add: PyLong_DigitValue_def hex_digit_value_def ord_def Py_ISSPACE_def)
qed

lemma str_replace_absent:
  "old \<noteq> [] \<Longrightarrow> hd old \<notin> set s \<Longrightarrow> str_replace old new s = s"
proof (induction s)
  case Nil
  then show ?case by (cases old) simp_all
next
  case (Cons c cs)
  then obtain v va where old: "old = v # va" by (cases old) auto
  with Cons show ?case by auto
qed

lemma str_replace_single: "str_replace [x] [] s = filter (\<lambda>c. c \<noteq> x) s"
  by (induction s) auto

lemma str_strip_inner:
  assumes "b \<noteq> []" "hd b \<notin> set chars" "last b \<notin> set chars"
    and "set pre \<subseteq> set chars" "set post \<subseteq> set chars"
  shows "str_strip chars (pre @ b @ post) = b"
proof -
  have 1: "dropWhile (\<lambda>c. c \<in> set chars) (pre @ b @ post) = b @ post"
    using assms
    by (subst dropWhile_append2)
      (auto simp: dropWhile_eq_self_iff dropWhile_append1 intro: hd_in_set)
  have 2: "dropWhile (\<lambda>c. c \<in> set chars) (rev post @ rev b) = rev b"
    using assms by (subst dropWhile_append2) (auto simp: dropWhile_eq_self_iff hd_rev)
  show ?thesis by (simp add: str_strip_def 1 2)
qed

lemma long_from_binary_base_hex:
  "list_all is_hex_digit s \<Longrightarrow>
   long_from_binary_base prev z s =
     Some (last (prev # s), foldl (\<lambda>z c. 16 * z + int (hex_digit_value c)) z s, [])"
proof (induction s arbitrary: prev z)
  case Nil
  then show ?case by simp
next
  case (Cons p ps)
  then have h: "is_hex_digit p" and t: "list_all is_hex_digit ps" by simp_all
  note f = is_hex_digit_cases [OF h]
  show ?case using Cons.IH [OF t] f by simp
qed

lemma foldl_hex_bounds:
  "list_all is_hex_digit s \<Longrightarrow> 0 \<le> z \<Longrightarrow>
   0 \<le> foldl (\<lambda>z c. 16 * z + int (hex_digit_value c)) z s \<and>
   foldl (\<lambda>z c. 16 * z + int (hex_digit_value c)) z s < (z + 1) * 16 ^ length s"
proof (induction s arbitrary: z)
  case Nil
  then show ?case by simp
next
  case (Cons c cs)
  then have h: "is_hex_digit c" and t: "list_all is_hex_digit cs" by simp_all
  have d: "int (hex_digit_value c) < 16" using is_hex_digit_cases [OF h] by simp
  let ?z = "16 * z + int (hex_digit_value c)"
  have z0: "0 \<le> ?z" using Cons.prems by simp
  from Cons.IH [OF t z0]
  have ih: "0 \<le> foldl (\<lambda>z c. 16 * z + int (hex_digit_value c)) ?z cs"
    "foldl (\<lambda>z c. 16 * z + int (hex_digit_value c)) ?z cs < (?z + 1) * 16 ^ length cs"
    by simp_all
  have "?z + 1 \<le> (z + 1) * 16" using d by simp
  then have "(?z + 1) * 16 ^ length cs \<le> ((z + 1) * 16) * 16 ^ length cs"
    by (intro mult_right_mono) simp_all
  also have "\<dots> = (z + 1) * 16 ^ length (c # cs)" by simp
  finally have le: "(?z + 1) * 16 ^ length cs \<le> (z + 1) * 16 ^ length (c # cs)" .
  have "foldl (\<lambda>z c. 16 * z + int (hex_digit_value c)) z (c # cs)
      < (z + 1) * 16 ^ length (c # cs)"
    using ih(2) le by (simp del: power_Suc)
  moreover have "0 \<le> foldl (\<lambda>z c. 16 * z + int (hex_digit_value c)) z (c # cs)"
    using ih(1) by simp
  ultimately show ?case by blast
qed

lemma hex_value_bounds:
  "list_all is_hex_digit s \<Longrightarrow> 0 \<le> hex_value s \<and> hex_value s < 16 ^ length s"
  using foldl_hex_bounds [of s 0] by (simp add: hex_value_def)

lemma PyLong_FromString_plain:
  assumes "dropWhile Py_ISSPACE s = s" "take 1 s \<noteq> ''-''" "take 1 s \<noteq> ''+''"
    "take 2 s \<noteq> ''0x''" "take 2 s \<noteq> ''0X''" "take 1 s \<noteq> ''_''"
    "long_from_binary_base (CHR 0x00) 0 s = Some (p, z, [])" "p \<noteq> CHR ''_''" "s \<noteq> []"
  shows "PyLong_FromString s = Some z"
  using assms by (simp add: PyLong_FromString_def Let_def)

lemma PyLong_FromString_hex:
  assumes "list_all is_hex_digit s" "s \<noteq> []"
  shows "PyLong_FromString s = Some (hex_value s)"
proof -
  from assms obtain c cs where s: "s = c # cs" by (cases s) auto
  with assms have h: "is_hex_digit c" and t: "list_all is_hex_digit cs" by simp_all
  note f = is_hex_digit_cases [OF h]
  have 3: "take 2 s \<noteq> ''0x'' \<and> take 2 s \<noteq> ''0X''"
  proof (cases cs)
    case Nil
    then show ?thesis using s by simp
  next
    case (Cons d ds)
    with t have "is_hex_digit d" by simp
    from is_hex_digit_cases [OF this] show ?thesis using Cons s by simp
  qed
  have "last s \<in> set s" using assms(2) by simp
  then have "is_hex_digit (last s)" using assms(1) by (simp add: list_all_iff)
  from is_hex_digit_cases [OF this] have 4: "last (CHR 0x00 # s) \<noteq> CHR ''_''"
    using assms(2) by simp
  have 5: "long_from_binary_base (CHR 0x00) 0 s = Some (last (CHR 0x00 # s), hex_value s, [])"
    using long_from_binary_base_hex [OF assms(1), of "CHR 0x00" 0]
    by (simp add: hex_value_def)
  show ?thesis
  proof (rule PyLong_FromString_plain [OF _ _ _ _ _ _ 5 4 assms(2)])
    show "dropWhile Py_ISSPACE s = s" using f s by simp
    show "take 1 s \<noteq> ''-''" using f s by simp
    show "take 1 s \<noteq> ''+''" using f s by simp
    show "take 2 s \<noteq> ''0x''" using 3 by simp
    show "take 2 s \<noteq> ''0X''" using 3 by simp
    show "take 1 s \<noteq> ''_''" using f s by simp
  qed
qed

lemma int_base16_hex:
  assumes "list_all is_hex_digit s" "s \<noteq> []"
  shows "int_base16 s = Inr (hex_value s)"
proof -
  have "list_all (\<lambda>ch. ord ch < 128) s"
    using assms(1) is_hex_digit_cases by (fastforce simp: list_all_iff)
  then show ?thesis
    by (simp add: int_base16_def TransformDecimalAndSpaceToASCII_def
        PyLong_FromString_hex [OF assms])
qed


section \<open>Properties of the identifiers\<close>

lemma hex_body_facts:
  assumes "hex_body b"
  shows "CHR ''u'' \<notin> set b" "CHR ''{'' \<notin> set b" "CHR ''}'' \<notin> set b"
    "list_all is_hex_digit (filter (\<lambda>c. c \<noteq> CHR ''-'') b)"
    "hd b \<notin> set ''{}''" "last b \<notin> set ''{}''" "b \<noteq> []"
proof -
  have a: "\<And>c. c \<in> set b \<Longrightarrow> is_hex_digit c \<or> c = CHR ''-''"
    using assms by (simp add: hex_body_def list_all_iff)
  show "CHR ''u'' \<notin> set b" using a is_hex_digit_cases by fastforce
  show "CHR ''{'' \<notin> set b" using a is_hex_digit_cases by fastforce
  show "CHR ''}'' \<notin> set b" using a is_hex_digit_cases by fastforce
  show "list_all is_hex_digit (filter (\<lambda>c. c \<noteq> CHR ''-'') b)"
    using a by (auto simp: list_all_iff)
  show "hd b \<notin> set ''{}''"
    using assms is_hex_digit_cases [of "hd b"] by (auto simp: hex_body_def)
  show "last b \<notin> set ''{}''"
    using assms is_hex_digit_cases [of "last b"] by (auto simp: hex_body_def)
  show "b \<noteq> []" using assms by (simp add: hex_body_def)
qed

lemma int_base16_hex_body:
  assumes "hex_body b"
  shows "(case int_base16 (filter (\<lambda>c. c \<noteq> CHR ''-'') b) of Inl e \<Rightarrow> Inl e
          | Inr n \<Rightarrow> if \<not> (0 \<le> n \<and> n < 2 ^ 128)
              then Inl (ValueError ''int is out of range (need a 128-bit value)'')
              else Inr (UUID n)) = Inr (UUID (hex_value (filter (\<lambda>c. c \<noteq> CHR ''-'') b)))"
proof -
  let ?h = "filter (\<lambda>c. c \<noteq> CHR ''-'') b"
  have l: "length ?h = 32" using assms by (simp add: hex_body_def)
  then have ne: "?h \<noteq> []" by auto
  note hx = hex_body_facts(4) [OF assms]
  have "(16::int) ^ 32 = 2 ^ 128" by simp
  with hex_value_bounds [OF hx] l have "0 \<le> hex_value ?h \<and> hex_value ?h < 2 ^ 128" by simp
  then show ?thesis by (simp add: int_base16_hex [OF hx ne])
qed

lemma uuid_normalise_plain:
  assumes "hex_body b"
  shows "uuid_normalise b = filter (\<lambda>c. c \<noteq> CHR ''-'') b"
  using hex_body_facts [OF assms] str_strip_inner [of b "''{}''" "[]" "[]"]
  by (simp add: uuid_normalise_def str_replace_absent str_replace_single)

lemma uuid_normalise_braces:
  assumes "hex_body b"
  shows "uuid_normalise (''{'' @ b @ ''}'') = filter (\<lambda>c. c \<noteq> CHR ''-'') b"
  using hex_body_facts [OF assms] str_strip_inner [of b "''{}''" "''{''" "''}''"]
  by (simp add: uuid_normalise_def str_replace_absent str_replace_single)

lemma uuid_normalise_urn:
  assumes "hex_body b"
  shows "uuid_normalise (''urn:uuid:'' @ b) = filter (\<lambda>c. c \<noteq> CHR ''-'') b"
  using hex_body_facts [OF assms] str_strip_inner [of b "''{}''" "[]" "[]"]
  by (simp add: uuid_normalise_def str_replace_absent str_replace_single)

lemma UUID_init_normal:
  assumes "hex_body b" "uuid_normalise s = filter (\<lambda>c. c \<noteq> CHR ''-'') b"
  shows "UUID_init s = Inr (UUID (hex_value (filter (\<lambda>c. c \<noteq> CHR ''-'') b)))"
proof -
  have l: "length (filter (\<lambda>c. c \<noteq> CHR ''-'') b) = 32" using assms by (simp add: hex_body_def)
  show ?thesis
    unfolding UUID_init_def Let_def assms(2) using l int_base16_hex_body [OF assms(1)] by simp
qed

lemma EventId_from_string_normal:
  assumes "hex_body b" "uuid_normalise s = filter (\<lambda>c. c \<noteq> CHR ''-'') b"
  shows "EventId_from_string s =
    Inr (EventId (UUID (hex_value (filter (\<lambda>c. c \<noteq> CHR ''-'') b))))"
  by (simp add: EventId_from_string_def UUID_init_normal [OF assms])

lemma hex_upper_value: "hex_digit_value (hex_upper c) = hex_digit_value c"
  by (simp add: hex_upper_def hex_digit_value_def ord_def)

lemma hex_upper_hyphen: "hex_upper c = CHR ''-'' \<longleftrightarrow> c = CHR ''-''"
  by (simp add: hex_upper_def)

lemma lower_hex_is_hex: "is_lower_hex_digit c \<Longrightarrow> is_hex_digit c"
  by (auto simp: is_lower_hex_digit_def is_hex_digit_def)

lemma hex_upper_is_hex: "is_lower_hex_digit c \<Longrightarrow> is_hex_digit (hex_upper c)"
  unfolding is_lower_hex_digit_def
  by (simp add: is_hex_digit_def) (elim disjE; simp add: hex_upper_def)

lemma hyphenated_decomp:
  assumes "hyphenated P s"
  shows "\<exists>a b c d e. s = a @ ''-'' @ b @ ''-'' @ c @ ''-'' @ d @ ''-'' @ e \<and>
     length a = 8 \<and> length b = 4 \<and> length c = 4 \<and> length d = 4 \<and> length e = 12 \<and>
     list_all P a \<and> list_all P b \<and> list_all P c \<and> list_all P d \<and> list_all P e"
proof -
  from assms have len: "length s = 36" by (simp add: hyphenated_def)
  have 1: "s = take 8 s @ s ! 8 # drop 9 s"
    using id_take_nth_drop [of 8 s] len by simp
  have 2: "drop 9 s = take 4 (drop 9 s) @ s ! 13 # drop 14 s"
    using id_take_nth_drop [of 4 "drop 9 s"] len by simp
  have 3: "drop 14 s = take 4 (drop 14 s) @ s ! 18 # drop 19 s"
    using id_take_nth_drop [of 4 "drop 14 s"] len by simp
  have 4: "drop 19 s = take 4 (drop 19 s) @ s ! 23 # drop 24 s"
    using id_take_nth_drop [of 4 "drop 19 s"] len by simp
  have "s = take 8 s @ ''-'' @ take 4 (drop 9 s) @ ''-'' @ take 4 (drop 14 s) @ ''-'' @
      take 4 (drop 19 s) @ ''-'' @ drop 24 s"
    using assms 1 2 3 4 by (simp add: hyphenated_def)
  moreover have "length (take 8 s) = 8" "length (take 4 (drop 9 s)) = 4"
    "length (take 4 (drop 14 s)) = 4" "length (take 4 (drop 19 s)) = 4"
    "length (drop 24 s) = 12"
    using len by simp_all
  moreover have "list_all P (take 8 s)" "list_all P (take 4 (drop 9 s))"
    "list_all P (take 4 (drop 14 s))" "list_all P (take 4 (drop 19 s))"
    "list_all P (drop 24 s)"
    using assms by (simp_all add: hyphenated_def)
  ultimately show ?thesis by blast
qed

lemma hyphenated_hex_body:
  assumes "hyphenated P s" "\<And>c. P c \<Longrightarrow> is_hex_digit c"
  shows "hex_body s"
proof -
  from hyphenated_decomp [OF assms(1)] obtain a b c d e where
    s: "s = a @ ''-'' @ b @ ''-'' @ c @ ''-'' @ d @ ''-'' @ e" and
    l: "length a = 8" "length b = 4" "length c = 4" "length d = 4" "length e = 12" and
    p: "list_all P a" "list_all P b" "list_all P c" "list_all P d" "list_all P e"
    by blast
  have hx: "list_all is_hex_digit a" "list_all is_hex_digit b" "list_all is_hex_digit c"
    "list_all is_hex_digit d" "list_all is_hex_digit e"
    using p assms(2) by (auto simp: list_all_iff)
  have nh: "\<And>xs. list_all is_hex_digit xs \<Longrightarrow> filter (\<lambda>c. c \<noteq> CHR ''-'') xs = xs"
    using is_hex_digit_cases by (auto simp: list_all_iff filter_id_conv)
  have ane: "a \<noteq> []" "e \<noteq> []" using l by auto
  have "is_hex_digit (hd a)" using hx(1) ane by (cases a) auto
  moreover have "is_hex_digit (last e)"
    using hx(5) ane(2) last_in_set [OF ane(2)] by (simp add: list_all_iff)
  moreover have "list_all (\<lambda>c. is_hex_digit c \<or> c = CHR ''-'') s"
    using hx by (auto simp: s list_all_iff)
  moreover have "length (filter (\<lambda>c. c \<noteq> CHR ''-'') s) = 32"
    using l by (simp add: s nh hx)
  ultimately show ?thesis using ane by (simp add: hex_body_def s)
qed

lemma plain_hex_body:
  assumes "length s = 32" "list_all is_hex_digit s"
  shows "hex_body s"
proof -
  have ne: "s \<noteq> []" using assms by auto
  then have "hd s \<in> set s" "last s \<in> set s" by simp_all
  then have "is_hex_digit (hd s)" "is_hex_digit (last s)"
    using assms(2) by (simp_all add: list_all_iff)
  moreover have "filter (\<lambda>c. c \<noteq> CHR ''-'') s = s"
    using assms(2) is_hex_digit_cases by (auto simp: list_all_iff filter_id_conv)
  ultimately show ?thesis using assms ne by (auto simp: hex_body_def list_all_iff)
qed

lemma hyphenated_upper:
  assumes "hyphenated is_lower_hex_digit s"
  shows "hyphenated is_hex_digit (map hex_upper s)"
proof -
  have "\<And>xs. list_all is_lower_hex_digit xs \<Longrightarrow> list_all is_hex_digit (map hex_upper xs)"
    by (simp add: list_all_iff hex_upper_is_hex)
  moreover have "hex_upper (CHR ''-'') = CHR ''-''" by (simp add: hex_upper_hyphen)
  ultimately show ?thesis
    using assms by (simp add: hyphenated_def take_map drop_map)
qed

lemma foldl_hex_upper:
  "foldl (\<lambda>z c. 16 * z + int (hex_digit_value c)) z
     (filter (\<lambda>c. c \<noteq> CHR ''-'') (map hex_upper s)) =
   foldl (\<lambda>z c. 16 * z + int (hex_digit_value c)) z (filter (\<lambda>c. c \<noteq> CHR ''-'') s)"
proof (induction s arbitrary: z)
  case Nil
  then show ?case by simp
next
  case (Cons a s)
  show ?case
  proof (cases "a = CHR ''-''")
    case True
    then have "hex_upper a = CHR ''-''" by (simp add: hex_upper_hyphen)
    then show ?thesis using True Cons by simp
  next
    case False
    then have "hex_upper a \<noteq> CHR ''-''" by (simp add: hex_upper_hyphen)
    then show ?thesis using False Cons [of "16 * z + int (hex_digit_value a)"]
      by (simp add: hex_upper_value)
  qed
qed

lemma hex_value_upper:
  "hex_value (filter (\<lambda>c. c \<noteq> CHR ''-'') (map hex_upper s)) =
   hex_value (filter (\<lambda>c. c \<noteq> CHR ''-'') s)"
  unfolding hex_value_def by (rule foldl_hex_upper)

lemma valid_hex_body_hex_body: "valid_hex_body b \<Longrightarrow> hex_body b"
  unfolding valid_hex_body_def
  using hyphenated_hex_body [of is_hex_digit b] plain_hex_body by blast

lemma uuid_body_shape:
  "s = ''urn:uuid:'' @ uuid_body s \<or> s = ''{'' @ uuid_body s @ ''}'' \<or> s = uuid_body s"
proof (cases "take 9 s = ''urn:uuid:''")
  case True
  then have "s = ''urn:uuid:'' @ drop 9 s" by (metis append_take_drop_id)
  then show ?thesis using True by (simp add: uuid_body_def)
next
  case False
  show ?thesis
  proof (cases "take 1 s = ''{'' \<and> last s = CHR ''}''")
    case True
    then obtain r where s: "s = CHR ''{'' # r" by (cases s) auto
    with True have "r \<noteq> []" by auto
    then have "r = butlast r @ [last r]" by simp
    moreover have "last r = CHR ''}''" using True s \<open>r \<noteq> []\<close> by simp
    ultimately have "s = ''{'' @ butlast r @ ''}''" using s by simp
    then show ?thesis using True False s by (simp add: uuid_body_def)
  next
    case F2: False
    then show ?thesis using False by (auto simp: uuid_body_def)
  qed
qed

lemma EventId_from_string_valid:
  assumes "valid_uuid_string u"
  shows "EventId_from_string u = Inr (EventId (uuid_denoted u))"
proof -
  have hb: "hex_body (uuid_body u)"
    using assms valid_hex_body_hex_body by (simp add: valid_uuid_string_def)
  from uuid_body_shape [of u]
  have "uuid_normalise u = filter (\<lambda>c. c \<noteq> CHR ''-'') (uuid_body u)"
    using uuid_normalise_urn [OF hb] uuid_normalise_braces [OF hb] uuid_normalise_plain [OF hb]
    by metis
  from EventId_from_string_normal [OF hb this] show ?thesis by (simp add: uuid_denoted_def)
qed

lemma canonical_hex_body: "canonical_uuid_string u \<Longrightarrow> hex_body u"
  unfolding canonical_uuid_string_def using hyphenated_hex_body lower_hex_is_hex by blast

lemma canonical_upper_hex_body: "canonical_uuid_string u \<Longrightarrow> hex_body (map hex_upper u)"
  unfolding canonical_uuid_string_def using hyphenated_hex_body [OF hyphenated_upper] by blast

lemma EventId_from_string_canonical:
  assumes "canonical_uuid_string u"
  shows "EventId_from_string u =
      Inr (EventId (UUID (hex_value (filter (\<lambda>c. c \<noteq> CHR ''-'') u))))"
    and "EventId_from_string (map hex_upper u) = EventId_from_string u"
    and "EventId_from_string (''{'' @ u @ ''}'') = EventId_from_string u"
    and "EventId_from_string (''urn:uuid:'' @ u) = EventId_from_string u"
proof -
  note hb = canonical_hex_body [OF assms]
  note hu = canonical_upper_hex_body [OF assms]
  show 1: "EventId_from_string u =
      Inr (EventId (UUID (hex_value (filter (\<lambda>c. c \<noteq> CHR ''-'') u))))"
    by (rule EventId_from_string_normal [OF hb uuid_normalise_plain [OF hb]])
  show "EventId_from_string (map hex_upper u) = EventId_from_string u"
    using EventId_from_string_normal [OF hu uuid_normalise_plain [OF hu]] 1
    by (simp add: hex_value_upper)
  show "EventId_from_string (''{'' @ u @ ''}'') = EventId_from_string u"
    using EventId_from_string_normal [OF hb uuid_normalise_braces [OF hb]] 1 by simp
  show "EventId_from_string (''urn:uuid:'' @ u) = EventId_from_string u"
    using EventId_from_string_normal [OF hb uuid_normalise_urn [OF hb]] 1 by simp
qed

text \<open>
  Claim C7. \<^verbatim>\<open>EventId.from_string(s)\<close> is to fail for every string that is not a valid UUID
  and to round-trip every valid one. The second half holds (\<open>EventId_from_string_valid\<close>
  above). The first does not: the method accepts strings that are no UUID in any spelling,
  because \<^verbatim>\<open>uuid.UUID\<close> only counts 32 characters and hands them to \<^verbatim>\<open>int(hex, 16)\<close>, which
  takes a \<^verbatim>\<open>0x\<close> prefix, underscores between digits, a sign and surrounding white space.
  Each of the four strings below is not a valid UUID string and is accepted as the
  identifier with integer value 10.
\<close>

theorem EventId_from_string_accepts_non_uuid:
  "\<not> valid_uuid_string ''0x00000000000000000000000000000a'' \<and>
   EventId_from_string ''0x00000000000000000000000000000a'' = Inr (EventId (UUID 10)) \<and>
   \<not> valid_uuid_string ''0_0_0_0_0_0_0_0_0_0_0_0_0_0_0_0a'' \<and>
   EventId_from_string ''0_0_0_0_0_0_0_0_0_0_0_0_0_0_0_0a'' = Inr (EventId (UUID 10)) \<and>
   \<not> valid_uuid_string ''+000000000000000000000000000000a'' \<and>
   EventId_from_string ''+000000000000000000000000000000a'' = Inr (EventId (UUID 10)) \<and>
   \<not> valid_uuid_string '' 000000000000000000000000000000a'' \<and>
   EventId_from_string '' 000000000000000000000000000000a'' = Inr (EventId (UUID 10))"
  by (simp add: valid_uuid_string_def valid_hex_body_def uuid_body_def hyphenated_def
      is_hex_digit_def EventId_from_string_def UUID_init_def uuid_normalise_def str_strip_def
      int_base16_def TransformDecimalAndSpaceToASCII_def PyLong_FromString_def ord_def
      Py_ISSPACE_def PyLong_DigitValue_def Let_def)

text \<open>
  Claim C10. \<^verbatim>\<open>EventId.from_string\<close> is not injective on the strings it accepts: for every
  canonical (lower-case, hyphenated) UUID string \<open>u\<close> it accepts \<open>u\<close>, its upper-case
  spelling, \<open>u\<close> in braces and \<open>u\<close> after \<^verbatim>\<open>urn:uuid:\<close>, and maps all four to the same
  identifier, the one whose value is the number that the digits of \<open>u\<close> spell.
\<close>

theorem EventId_from_string_not_injective:
  assumes "canonical_uuid_string u"
  shows "EventId_from_string u =
           Inr (EventId (UUID (hex_value (filter (\<lambda>c. c \<noteq> CHR ''-'') u)))) \<and>
         EventId_from_string (map hex_upper u) = EventId_from_string u \<and>
         EventId_from_string (''{'' @ u @ ''}'') = EventId_from_string u \<and>
         EventId_from_string (''urn:uuid:'' @ u) = EventId_from_string u \<and>
         ''{'' @ u @ ''}'' \<noteq> u \<and> ''urn:uuid:'' @ u \<noteq> u \<and>
         \<not> inj_on EventId_from_string {s. \<not> isl (EventId_from_string s)}"
proof -
  note c = EventId_from_string_canonical [OF assms]
  have ne: "''{'' @ u @ ''}'' \<noteq> u"
  proof
    assume "''{'' @ u @ ''}'' = u"
    then have "length (''{'' @ u @ ''}'') = length u" by (rule arg_cong)
    then show False by simp
  qed
  have ne2: "''urn:uuid:'' @ u \<noteq> u"
  proof
    assume "''urn:uuid:'' @ u = u"
    then have "length (''urn:uuid:'' @ u) = length u" by (rule arg_cong)
    then show False by simp
  qed
  have "\<not> inj_on EventId_from_string {s. \<not> isl (EventId_from_string s)}"
  proof
    assume i: "inj_on EventId_from_string {s. \<not> isl (EventId_from_string s)}"
    have "u \<in> {s. \<not> isl (EventId_from_string s)}" using c(1) by simp
    moreover have "''{'' @ u @ ''}'' \<in> {s. \<not> isl (EventId_from_string s)}"
      using c(1,3) by simp
    ultimately have "''{'' @ u @ ''}'' = u" using i c(3) by (meson inj_onD)
    with ne show False by simp
  qed
  with c ne ne2 show ?thesis by blast
qed

theorem EventId_from_string_not_injective_witness:
  "canonical_uuid_string ''12345678-1234-5678-1234-567812abcdef'' \<and>
   EventId_from_string ''12345678-1234-5678-1234-567812abcdef'' =
     Inr (EventId (UUID 24197857161011715162171839636996607471)) \<and>
   EventId_from_string ''12345678-1234-5678-1234-567812ABCDEF'' =
     EventId_from_string ''12345678-1234-5678-1234-567812abcdef'' \<and>
   EventId_from_string ''{12345678-1234-5678-1234-567812abcdef}'' =
     EventId_from_string ''12345678-1234-5678-1234-567812abcdef'' \<and>
   EventId_from_string ''urn:uuid:12345678-1234-5678-1234-567812abcdef'' =
     EventId_from_string ''12345678-1234-5678-1234-567812abcdef''"
proof -
  have c: "canonical_uuid_string ''12345678-1234-5678-1234-567812abcdef''"
    by (simp add: canonical_uuid_string_def hyphenated_def is_lower_hex_digit_def)
  have h: "hex_value (filter (\<lambda>c. c \<noteq> CHR ''-'') ''12345678-1234-5678-1234-567812abcdef'') =
      24197857161011715162171839636996607471"
    by (simp add: hex_value_def hex_digit_value_def ord_def)
  have m: "map hex_upper ''12345678-1234-5678-1234-567812abcdef'' =
      ''12345678-1234-5678-1234-567812ABCDEF''"
    by (simp add: hex_upper_def)
  show ?thesis
    using EventId_from_string_not_injective [OF c] c unfolding h m by simp
qed


section \<open>Properties of Money\<close>

lemma digit_char_is_digit: "is_digit (digit_char n)"
proof -
  have "n mod 10 < length ''0123456789''" by simp
  then have "''0123456789'' ! (n mod 10) \<in> set ''0123456789''" by (rule nth_mem)
  then show ?thesis by (simp only: is_digit_def digit_char_def)
qed

lemma str_nat_small: "n < 10 \<Longrightarrow> str_nat n = [digit_char n]"
  by (subst str_nat.simps) simp

lemma str_nat_large:
  "\<not> n < 10 \<Longrightarrow> str_nat n = str_nat (n div 10) @ [digit_char (n mod 10)]"
  by (subst str_nat.simps) simp

lemma str_nat_digits: "list_all is_digit (str_nat n)"
proof (induction n rule: str_nat.induct)
  case (1 n)
  show ?case
  proof (cases "n < 10")
    case True
    then show ?thesis by (simp add: str_nat_small digit_char_is_digit)
  next
    case False
    with 1 show ?thesis by (simp add: str_nat_large digit_char_is_digit)
  qed
qed

lemma is_digit_not_point: "is_digit c \<Longrightarrow> c \<noteq> CHR ''.''"
  by (auto simp: is_digit_def)

lemma two_fractional_digits_shape:
  assumes "list_all (\<lambda>c. c \<noteq> CHR ''.'') ip" "is_digit d1" "is_digit d2"
  shows "two_fractional_digits (ip @ ''.'' @ [d1, d2])"
proof -
  have "dropWhile (\<lambda>c. c \<noteq> CHR ''.'') (ip @ ''.'' @ [d1, d2]) = ''.'' @ [d1, d2]"
    using assms(1) by (subst dropWhile_append2) (auto simp: list_all_iff)
  then show ?thesis using assms(2,3) by (simp add: two_fractional_digits_def)
qed

lemma format_2f_finite:
  assumes "format_2f alloc (Finite s c e) = Inr r"
  shows "two_fractional_digits r"
proof -
  let ?q = "rescale2 c e"
  have r: "r = (format_sign s @ str_nat (?q div 100)) @ ''.'' @
      [digit_char (?q mod 100 div 10), digit_char (?q mod 10)]"
    using assms by (simp add: Let_def split: if_splits)
  have "list_all (\<lambda>c. c \<noteq> CHR ''.'') (format_sign s @ str_nat (?q div 100))"
    using str_nat_digits [of "?q div 100"] is_digit_not_point
    by (auto simp: list_all_iff format_sign_def)
  from two_fractional_digits_shape [OF this digit_char_is_digit digit_char_is_digit]
  show ?thesis unfolding r .
qed

lemma Money_init_negative:
  "dec_lt_zero a = Inr True \<Longrightarrow>
   Money_init a = Inl (ValueError ''Money amount cannot be negative'')"
  by (simp add: Money_init_def Money_post_init_def)

lemma Money_init_nonnegative:
  "dec_ge_zero a = Inr True \<Longrightarrow> Money_init a = Inr \<lparr>amount = a\<rparr>"
  by (cases a) (auto simp: Money_init_def Money_post_init_def)

lemma Money_three:
  assumes "alloc 3"
  shows "Money_init (Finite False 3 0) = Inr \<lparr>amount = Finite False 3 0\<rparr> \<and>
   Money_str alloc \<lparr>amount = Finite False 3 0\<rparr> = Inr ''3.00''"
proof -
  have n: "num_digits 3 + nat (0 + 2) = 3" by (simp add: num_digits_def str_nat_small)
  have "format_2f alloc (Finite False 3 0) = Inr ''3.00''"
    using assms unfolding format_2f.simps n
    by (simp add: MPD_MAX_PREC_def num_digits_def str_nat_small rescale2_def format_sign_def
        digit_char_def)
  then show ?thesis by (simp add: Money_init_def Money_post_init_def Money_str_def)
qed

text \<open>
  Claim C6. \<^verbatim>\<open>Money(amount)\<close> is to fail for every amount below zero, and for every amount
  that is zero or more to succeed and render with exactly two fractional digits. The
  failure half holds (\<open>Money_init_negative\<close>), construction succeeds
  (\<open>Money_init_nonnegative\<close>), and a rendering of a finite amount, when \<^verbatim>\<open>__str__\<close> returns
  one, has two fractional digits (\<open>format_2f_finite\<close>). But \<^verbatim>\<open>__post_init__\<close> only tests
  \<^verbatim>\<open>amount < 0\<close>, so positive infinity is accepted, and it renders as \<^verbatim>\<open>Infinity\<close>, with no
  fractional digits; and the amount \<^verbatim>\<open>1E+999999999999999999\<close> is accepted, and rendering
  it raises \<^verbatim>\<open>ValueError\<close>.
\<close>

theorem Money_renders_without_two_digits:
  "dec_ge_zero (Infinity False) = Inr True \<and>
   Money_init (Infinity False) = Inr \<lparr>amount = Infinity False\<rparr> \<and>
   Money_str alloc \<lparr>amount = Infinity False\<rparr> = Inr ''Infinity'' \<and>
   \<not> two_fractional_digits ''Infinity'' \<and>
   dec_ge_zero (Finite False 1 999999999999999999) = Inr True \<and>
   Money_init (Finite False 1 999999999999999999) =
     Inr \<lparr>amount = Finite False 1 999999999999999999\<rparr> \<and>
   Money_str alloc \<lparr>amount = Finite False 1 999999999999999999\<rparr> =
     Inl (ValueError ''format specification exceeds internal limits of _decimal'')"
  by (simp add: Money_init_def Money_post_init_def Money_str_def format_sign_def
      two_fractional_digits_def num_digits_def str_nat_small MPD_MAX_PREC_def)


section \<open>The service and the invalidation handler\<close>

text \<open>
  Claim C1. \<^verbatim>\<open>EventService.get_event\<close> is to fail with \<^verbatim>\<open>INVALID_EVENT_ID\<close> on a string
  that is not a UUID, with \<^verbatim>\<open>EVENT_NOT_FOUND\<close> when the store has no such event, and to
  return the event otherwise. The method as written raises \<^verbatim>\<open>NotImplementedError\<close> on
  every input, whatever the store: on \<^verbatim>\<open>not-a-uuid\<close>, which the identifier parser rejects,
  and on a well-formed identifier alike.
\<close>

theorem get_event_raises_not_implemented:
  "EventService_get_event (EventService_init store) ''not-a-uuid'' = Inl NotImplementedError \<and>
   EventId_from_string ''not-a-uuid'' =
     Inl (ValueError ''badly formed hexadecimal UUID string'') \<and>
   EventService_get_event (EventService_init store) ''12345678-1234-5678-1234-567812345678'' =
     Inl NotImplementedError \<and>
   EventService_get_event self raw_id = Inl NotImplementedError"
  by (simp add: EventService_get_event_def EventId_from_string_def UUID_init_def
      uuid_normalise_def str_strip_def)

text \<open>
  Claim C2. \<^verbatim>\<open>EventService.get_sessions_for_event\<close> is to fail with \<^verbatim>\<open>EVENT_NOT_FOUND\<close>
  when the store reports that the event does not exist, and to return the empty sequence
  for an existing event without sessions. The method as written raises
  \<^verbatim>\<open>NotImplementedError\<close> in both situations: here on a store whose \<^verbatim>\<open>event_exists\<close> answers
  \<open>False\<close> and whose session list is empty, and on any service and identifier.
\<close>

theorem get_sessions_for_event_raises_not_implemented:
  "EventService_get_sessions_for_event
     (EventService_init
        \<lparr>store_list_events = Inr [], store_get_event = (\<lambda>i. Inr None),
         store_get_sessions_for_event = (\<lambda>i. Inr []),
         store_event_exists = (\<lambda>i. Inr False)\<rparr>)
     ''12345678-1234-5678-1234-567812345678'' = Inl NotImplementedError \<and>
   EventService_get_sessions_for_event self raw_id = Inl NotImplementedError"
  by (simp add: EventService_get_sessions_for_event_def)

text \<open>
  Claim C3. The handler run on every save or delete of an event is to invalidate the keys
  \<^verbatim>\<open>events:list\<close> and \<^verbatim>\<open>events:{E}\<close>. The handler as written returns the cache as it
  received it: both keys keep their values (and so does every other key).
\<close>

theorem invalidate_event_cache_leaves_cache:
  "invalidate_event_cache Event_model inst post_save
     [''events:list'' \<mapsto> v1, ''events:12345678-1234-5678-1234-567812345678'' \<mapsto> v2]
     ''events:list'' = Some v1 \<and>
   invalidate_event_cache Event_model inst post_save
     [''events:list'' \<mapsto> v1, ''events:12345678-1234-5678-1234-567812345678'' \<mapsto> v2]
     ''events:12345678-1234-5678-1234-567812345678'' = Some v2 \<and>
   invalidate_event_cache sender inst kwargs cache = cache"
  by (simp add: invalidate_event_cache_def)

text \<open>
  Claim C4. A first \<^verbatim>\<open>get_event(id)\<close> is to populate \<^verbatim>\<open>events:{id}\<close>, and after an update
  and the handler's run a second \<^verbatim>\<open>get_event(id)\<close> is to return the updated event. As
  written, the first call already raises \<^verbatim>\<open>NotImplementedError\<close> and returns no event, the
  handler leaves a cached entry under \<^verbatim>\<open>events:{id}\<close> in place, and the second call raises
  again, whatever the store holds by then.
\<close>

theorem get_event_after_update_raises:
  "EventService_get_event (EventService_init store)
     ''12345678-1234-5678-1234-567812345678'' = Inl NotImplementedError \<and>
   invalidate_event_cache Event_model inst post_save
     [''events:12345678-1234-5678-1234-567812345678'' \<mapsto> stale]
     ''events:12345678-1234-5678-1234-567812345678'' = Some stale \<and>
   EventService_get_event (EventService_init store')
     ''12345678-1234-5678-1234-567812345678'' = Inl NotImplementedError"
  by (simp add: EventService_get_event_def invalidate_event_cache_def)

text \<open>
  Claim C5. \<^verbatim>\<open>EventService.list_events()\<close> is to return the empty sequence on an empty
  store and \<open>[B, A]\<close> on a store that lists the later event \<open>B\<close> before \<open>A\<close>. The method as
  written raises \<^verbatim>\<open>NotImplementedError\<close> on both stores, and on the repository's own
  \<^verbatim>\<open>DjangoEventStore\<close>, whose \<^verbatim>\<open>list_events\<close> raises as well.
\<close>

theorem list_events_raises_not_implemented:
  "EventService_list_events
     (EventService_init
        \<lparr>store_list_events = Inr [], store_get_event = (\<lambda>i. Inr None),
         store_get_sessions_for_event = (\<lambda>i. Inr []),
         store_event_exists = (\<lambda>i. Inr False)\<rparr>) = Inl NotImplementedError \<and>
   EventService_list_events
     (EventService_init
        \<lparr>store_list_events = Inr [B, A], store_get_event = (\<lambda>i. Inr None),
         store_get_sessions_for_event = (\<lambda>i. Inr []),
         store_event_exists = (\<lambda>i. Inr True)\<rparr>) = Inl NotImplementedError \<and>
   EventService_list_events (EventService_init DjangoEventStore) = Inl NotImplementedError \<and>
   store_list_events DjangoEventStore = Inl NotImplementedError"
  by (simp add: EventService_list_events_def DjangoEventStore_def)

end
